theory Spec2Isabelle
  imports Complex_Main
begin

section \<open>Access verification of the Iono Pi access control system (src/database.py)\<close>

text \<open>
  The development embeds the three classes of \<^verbatim>\<open>src/database.py\<close>:
  \<^verbatim>\<open>LocalDatabase\<close> (the SQLite tables \<^verbatim>\<open>access_cache\<close> and \<^verbatim>\<open>access_logs\<close>),
  \<^verbatim>\<open>RemoteVerifier\<close> (the HTTP client) and \<^verbatim>\<open>AccessVerifier\<close> (the entry point
  \<^verbatim>\<open>verify_access\<close>).

  Python values whose type the code does not fix (the decoded JSON body of the remote
  answer and the fields copied out of it) are values of \<open>pyval\<close>. Points in time
  (\<^verbatim>\<open>datetime\<close>) are integers counting microseconds, and a \<^verbatim>\<open>timedelta\<close> is their
  difference. Everything the code obtains from its surroundings during one call (the
  clocks, the HTTP exchange, whether an SQLite statement raises) is a field of \<open>env\<close>;
  the tables and the list of remote queries made so far are the \<open>state\<close>, passed in and
  returned. SQLite is a table that hands back the values that were stored in it.
\<close>

subsection \<open>Python values\<close>

datatype pyval =
    PyNone
  | PyBool bool
  | PyInt int
  | PyFloat rat
  | PyStr string
  | PyList "pyval list"
  | PyDict "(string \<times> pyval) list"

text \<open>Truth value testing, as \<^verbatim>\<open>if x\<close>, \<^verbatim>\<open>x or y\<close> and \<^verbatim>\<open>a if x else b\<close> do it.\<close>

fun truthy :: "pyval \<Rightarrow> bool" where
  "truthy PyNone = False"
| "truthy (PyBool b) = b"
| "truthy (PyInt i) = (i \<noteq> 0)"
| "truthy (PyFloat r) = (r \<noteq> 0)"
| "truthy (PyStr s) = (s \<noteq> [])"
| "truthy (PyList xs) = (xs \<noteq> [])"
| "truthy (PyDict kvs) = (kvs \<noteq> [])"

definition py_or :: "pyval \<Rightarrow> pyval \<Rightarrow> pyval" where
  "py_or a b = (if truthy a then a else b)"

datatype exn = Exn string

fun str_exn :: "exn \<Rightarrow> string" where
  "str_exn (Exn msg) = msg"

text \<open>\<^verbatim>\<open>d.get(key, default)\<close> on a dictionary \<open>d\<close> with the items \<open>kvs\<close>.\<close>

definition dict_get :: "(string \<times> pyval) list \<Rightarrow> string \<Rightarrow> pyval \<Rightarrow> pyval" where
  "dict_get kvs key dflt = (case map_of kvs key of None \<Rightarrow> dflt | Some v \<Rightarrow> v)"

subsection \<open>Data classes and tables\<close>

type_synonym datetime = int

definition timedelta_hours :: "int \<Rightarrow> int" where
  "timedelta_hours h = h * 3600000000"

record AccessResult =
  granted :: pyval
  barcode :: string
  user_id :: pyval
  user_name :: pyval
  reason :: pyval
  expires_at :: "datetime option"
  permissions :: pyval
  cached :: bool

record AccessLog =
  log_id :: "nat option"
  log_timestamp :: datetime
  log_barcode :: string
  log_granted :: pyval
  log_user_id :: pyval
  log_user_name :: pyval
  log_reason :: pyval
  log_source :: string

text \<open>
  A row of \<^verbatim>\<open>access_cache\<close>. The column \<^verbatim>\<open>permissions\<close> holds the text
  \<^verbatim>\<open>json.dumps\<close> wrote, \<open>Some v\<close> for the text that decodes to \<open>v\<close>, and \<open>None\<close> for
  an empty column.
\<close>

record cache_row =
  c_barcode :: string
  c_user_id :: pyval
  c_user_name :: pyval
  c_granted :: pyval
  c_permissions :: "pyval option"
  c_expires_at :: "datetime option"
  c_cached_at :: datetime

text \<open>
  The two tables, and \<open>remote_calls\<close>: the identifiers \<^verbatim>\<open>verify_access\<close> has passed
  to \<^verbatim>\<open>verify_barcode\<close> so far, kept to tell a call that asks the remote verifier from
  one that does not.
\<close>

record state =
  access_cache :: "cache_row list"
  access_logs :: "AccessLog list"
  remote_calls :: "string list"

datatype http_outcome =
    Raises exn
  | Response int "pyval option"

text \<open>
  \<open>Raises e\<close>: \<^verbatim>\<open>client.post\<close> raised (timeout, connection failure).
  \<open>Response status body\<close>: a response arrived; \<open>body\<close> is what \<^verbatim>\<open>response.json()\<close>
  returns and \<open>None\<close> when it raises because the body is not JSON.
\<close>

text \<open>
  The surroundings of one call. \<open>now\<close> is what \<^verbatim>\<open>datetime.now()\<close> returns where the
  cache is read or cleaned, \<open>now_log\<close> where the log entry is built, and
  \<open>CURRENT_TIMESTAMP\<close> is the clock SQLite stamps a new cache row with. The
  \<open>_error\<close> fields say whether the statement of that kind raises, and
  \<open>client_error\<close> whether building the HTTP client does. \<open>fromisoformat\<close> is
  \<^verbatim>\<open>datetime.fromisoformat\<close>, with \<open>None\<close> where it raises.
\<close>

record env =
  HTTP_AVAILABLE :: bool
  now :: datetime
  now_log :: datetime
  CURRENT_TIMESTAMP :: datetime
  select_error :: "exn option"
  insert_error :: "exn option"
  log_error :: "exn option"
  delete_error :: "exn option"
  client_error :: "exn option"
  http :: http_outcome
  fromisoformat :: "string \<Rightarrow> datetime option"

record config =
  remote_type :: string
  base_url :: string

subsection \<open>LocalDatabase\<close>

text \<open>
  \<^verbatim>\<open>aiosqlite.connect\<close> and the statement run on the connection. When the import of
  \<^verbatim>\<open>httpx\<close> and \<^verbatim>\<open>aiosqlite\<close> failed, the name \<^verbatim>\<open>aiosqlite\<close> is unbound and every
  use of it raises; otherwise the statement raises when the surroundings say so.
\<close>

definition aiosqlite_run :: "env \<Rightarrow> exn option \<Rightarrow> exn option" where
  "aiosqlite_run e err = (if HTTP_AVAILABLE e then err else Some (Exn ''NameError''))"

definition cache_access_result :: "env \<Rightarrow> state \<Rightarrow> AccessResult \<Rightarrow> state" where
  "cache_access_result e st result =
     (case aiosqlite_run e (insert_error e) of
        Some ex \<Rightarrow> st
      | None \<Rightarrow>
          st\<lparr>access_cache :=
               filter (\<lambda>row. c_barcode row \<noteq> barcode result) (access_cache st) @
               [\<lparr>c_barcode = barcode result,
                 c_user_id = user_id result,
                 c_user_name = user_name result,
                 c_granted = granted result,
                 c_permissions = Some (py_or (permissions result) (PyList [])),
                 c_expires_at = expires_at result,
                 c_cached_at = CURRENT_TIMESTAMP e\<rparr>]\<rparr>)"

definition get_cached_access :: "env \<Rightarrow> state \<Rightarrow> string \<Rightarrow> AccessResult option" where
  "get_cached_access e st bc =
     (case aiosqlite_run e (select_error e) of
        Some ex \<Rightarrow> None
      | None \<Rightarrow>
          (case find (\<lambda>row. c_barcode row = bc) (access_cache st) of
             None \<Rightarrow> None
           | Some row \<Rightarrow>
               if now e - c_cached_at row < timedelta_hours 1
               then Some \<lparr>granted = c_granted row,
                          barcode = c_barcode row,
                          user_id = c_user_id row,
                          user_name = c_user_name row,
                          reason = PyNone,
                          expires_at = c_expires_at row,
                          permissions =
                            (case c_permissions row of None \<Rightarrow> PyList [] | Some v \<Rightarrow> v),
                          cached = True\<rparr>
               else None))"

text \<open>
  The table assigns the \<^verbatim>\<open>AUTOINCREMENT\<close> key: one more than the largest key in
  the table, which nothing ever deletes from.
\<close>

definition next_id :: "AccessLog list \<Rightarrow> nat" where
  "next_id rows = Suc (fold max (map (\<lambda>r. case log_id r of None \<Rightarrow> 0 | Some i \<Rightarrow> i) rows) 0)"

definition log_access_attempt :: "env \<Rightarrow> state \<Rightarrow> AccessLog \<Rightarrow> state" where
  "log_access_attempt e st log_entry =
     (case aiosqlite_run e (log_error e) of
        Some ex \<Rightarrow> st
      | None \<Rightarrow>
          st\<lparr>access_logs :=
               access_logs st @ [log_entry\<lparr>log_id := Some (next_id (access_logs st))\<rparr>]\<rparr>)"


subsection \<open>RemoteVerifier\<close>

text \<open>
  \<^verbatim>\<open>_get_client\<close>: \<open>Inr None\<close> when the HTTP library is missing, \<open>Inl\<close> when
  building the client raises.
\<close>

definition get_client :: "env \<Rightarrow> exn + unit option" where
  "get_client e =
     (if \<not> HTTP_AVAILABLE e then Inr None
      else case client_error e of Some ex \<Rightarrow> Inl ex | None \<Rightarrow> Inr (Some ()))"

text \<open>
  The inner \<^verbatim>\<open>try\<close> of \<^verbatim>\<open>_parse_verification_response\<close>: the subscript
  \<^verbatim>\<open>data["expires_at"]\<close> handed to \<^verbatim>\<open>datetime.fromisoformat\<close>, which raises on
  anything but a string in ISO format; the bare \<^verbatim>\<open>except\<close> leaves \<^verbatim>\<open>None\<close>.
\<close>

definition parse_expires_at :: "env \<Rightarrow> (string \<times> pyval) list \<Rightarrow> datetime option" where
  "parse_expires_at e kvs =
     (case map_of kvs ''expires_at'' of
        None \<Rightarrow> None
      | Some (PyStr s) \<Rightarrow> fromisoformat e s
      | Some _ \<Rightarrow> None)"

text \<open>
  The outer \<^verbatim>\<open>try\<close> of \<^verbatim>\<open>_parse_verification_response\<close>. Its first statement is
  \<^verbatim>\<open>data.get("access_granted", False)\<close>: a body that is not a dictionary has no
  attribute \<^verbatim>\<open>get\<close> and the statement raises \<^verbatim>\<open>AttributeError\<close>; on a dictionary
  nothing in the block raises.
\<close>

fun parse_try :: "env \<Rightarrow> string \<Rightarrow> pyval \<Rightarrow> exn + AccessResult" where
  "parse_try e bc (PyDict kvs) =
     (let granted' = dict_get kvs ''access_granted'' (PyBool False) in
      Inr \<lparr>granted = granted',
           barcode = bc,
           user_id = dict_get kvs ''user_id'' PyNone,
           user_name = dict_get kvs ''user_name'' (dict_get kvs ''name'' PyNone),
           reason =
             dict_get kvs ''reason''
               (PyStr (if truthy granted' then ''Access granted'' else ''Access denied'')),
           expires_at = parse_expires_at e kvs,
           permissions = dict_get kvs ''permissions'' (PyList []),
           cached = False\<rparr>)"
| "parse_try e bc _ = Inl (Exn ''AttributeError'')"

definition parse_verification_response :: "env \<Rightarrow> string \<Rightarrow> pyval \<Rightarrow> AccessResult" where
  "parse_verification_response e bc data =
     (case parse_try e bc data of
        Inr result \<Rightarrow> result
      | Inl ex \<Rightarrow>
          \<lparr>granted = PyBool False, barcode = bc, user_id = PyNone, user_name = PyNone,
           reason = PyStr ''Invalid response format'', expires_at = None,
           permissions = PyNone, cached = False\<rparr>)"

definition verify_barcode :: "config \<Rightarrow> env \<Rightarrow> string \<Rightarrow> exn + AccessResult option" where
  "verify_barcode cfg e bc =
     (if remote_type cfg \<noteq> ''http'' \<or> base_url cfg = [] then Inr None
      else
        (case get_client e of
           Inl ex \<Rightarrow> Inl ex
         | Inr None \<Rightarrow> Inr None
         | Inr (Some client) \<Rightarrow>
             (case http e of
                Raises ex \<Rightarrow> Inr None
              | Response status_code body \<Rightarrow>
                  if status_code = 200 then
                    (case body of
                       None \<Rightarrow> Inr None
                     | Some data \<Rightarrow> Inr (Some (parse_verification_response e bc data)))
                  else if status_code = 404 then
                    Inr (Some \<lparr>granted = PyBool False, barcode = bc, user_id = PyNone,
                               user_name = PyNone,
                               reason = PyStr ''Barcode not found in database'',
                               expires_at = None, permissions = PyNone, cached = False\<rparr>)
                  else Inr None)))"

subsection \<open>AccessVerifier\<close>

definition fallback_result :: "string \<Rightarrow> AccessResult" where
  "fallback_result bc =
     \<lparr>granted = PyBool False, barcode = bc, user_id = PyNone, user_name = PyNone,
      reason = PyStr ''Remote verification unavailable'', expires_at = None,
      permissions = PyNone, cached = False\<rparr>"

definition error_result :: "string \<Rightarrow> AccessResult" where
  "error_result bc =
     \<lparr>granted = PyBool False, barcode = bc, user_id = PyNone, user_name = PyNone,
      reason = PyStr ''Verification error'', expires_at = None,
      permissions = PyNone, cached = False\<rparr>"

text \<open>The second half of the \<^verbatim>\<open>try\<close> block: build the log entry, write it, return.\<close>

definition log_entry_of :: "env \<Rightarrow> string \<Rightarrow> string \<Rightarrow> AccessResult \<Rightarrow> AccessLog" where
  "log_entry_of e bc src result =
     \<lparr>log_id = None,
      log_timestamp = now_log e,
      log_barcode = bc,
      log_granted = granted result,
      log_user_id = user_id result,
      log_user_name = user_name result,
      log_reason =
        py_or (reason result)
          (PyStr (if truthy (granted result) then ''Access granted'' else ''Access denied'')),
      log_source = src\<rparr>"

definition log_and_return ::
  "env \<Rightarrow> state \<Rightarrow> string \<Rightarrow> string \<Rightarrow> AccessResult \<Rightarrow> (exn + AccessResult) \<times> state" where
  "log_and_return e st bc src result =
     (Inr result, log_access_attempt e st (log_entry_of e bc src result))"

text \<open>
  The \<^verbatim>\<open>try\<close> block of \<^verbatim>\<open>verify_access\<close>. An exception leaves it with the state
  as changed so far.
\<close>

definition verify_access_try ::
  "config \<Rightarrow> env \<Rightarrow> state \<Rightarrow> string \<Rightarrow> string \<Rightarrow> (exn + AccessResult) \<times> state" where
  "verify_access_try cfg e st bc src =
     (case get_cached_access e st bc of
        Some cached_result \<Rightarrow> log_and_return e st bc src cached_result
      | None \<Rightarrow>
          (let st1 = st\<lparr>remote_calls := remote_calls st @ [bc]\<rparr> in
           case verify_barcode cfg e bc of
             Inl ex \<Rightarrow> (Inl ex, st1)
           | Inr (Some result) \<Rightarrow>
               log_and_return e (cache_access_result e st1 result) bc src result
           | Inr None \<Rightarrow> log_and_return e st1 bc src (fallback_result bc)))"

text \<open>
  \<^verbatim>\<open>verify_access\<close>: the \<^verbatim>\<open>try\<close> block and its handler, which answers with a
  denial and still tries to log the attempt.
\<close>

definition verify_access ::
  "config \<Rightarrow> env \<Rightarrow> state \<Rightarrow> string \<Rightarrow> string \<Rightarrow> (exn + AccessResult) \<times> state" where
  "verify_access cfg e st bc src =
     (case verify_access_try cfg e st bc src of
        (Inr result, st') \<Rightarrow> (Inr result, st')
      | (Inl ex, st') \<Rightarrow>
          (Inr (error_result bc),
           log_access_attempt e st'
             \<lparr>log_id = None,
              log_timestamp = now_log e,
              log_barcode = bc,
              log_granted = PyBool False,
              log_user_id = PyNone,
              log_user_name = PyNone,
              log_reason = PyStr (''Verification error: '' @ str_exn ex),
              log_source = src\<rparr>))"

subsection \<open>Example surroundings\<close>

text \<open>
  A configured remote, an unconfigured one, the empty tables, and surroundings in which
  the libraries are present, no SQLite statement raises, every clock reads \<open>t\<close> and the
  HTTP exchange ends as \<open>h\<close>.
\<close>

definition cfg_http :: config where
  "cfg_http = \<lparr>remote_type = ''http'', base_url = ''https://authority.example''\<rparr>"

definition cfg_unconfigured :: config where
  "cfg_unconfigured = \<lparr>remote_type = ''http'', base_url = []\<rparr>"

definition st_empty :: state where
  "st_empty = \<lparr>access_cache = [], access_logs = [], remote_calls = []\<rparr>"

definition env_at :: "http_outcome \<Rightarrow> datetime \<Rightarrow> env" where
  "env_at h t =
     \<lparr>HTTP_AVAILABLE = True, now = t, now_log = t, CURRENT_TIMESTAMP = t,
      select_error = None, insert_error = None, log_error = None, delete_error = None,
      client_error = None, http = h, fromisoformat = (\<lambda>s. None)\<rparr>"

definition row_555 :: cache_row where
  "row_555 =
     \<lparr>c_barcode = ''555'', c_user_id = PyStr ''user555'', c_user_name = PyNone,
      c_granted = PyBool True, c_permissions = Some (PyList []),
      c_expires_at = Some (timedelta_hours 1000), c_cached_at = 0\<rparr>"


section \<open>Properties\<close>

subsection \<open>State left alone by the table operations\<close>

lemma remote_calls_log_access_attempt [simp]:
  "remote_calls (log_access_attempt e st l) = remote_calls st"
  by (simp add: log_access_attempt_def split: option.splits)

lemma access_cache_log_access_attempt [simp]:
  "access_cache (log_access_attempt e st l) = access_cache st"
  by (simp add: log_access_attempt_def split: option.splits)

lemma remote_calls_cache_access_result [simp]:
  "remote_calls (cache_access_result e st r) = remote_calls st"
  by (simp add: cache_access_result_def split: option.splits)

lemma access_logs_cache_access_result [simp]:
  "access_logs (cache_access_result e st r) = access_logs st"
  by (simp add: cache_access_result_def split: option.splits)




subsection \<open>The four ways through \<^verbatim>\<open>verify_access\<close>\<close>


lemma verify_access_unavailable:
  "get_cached_access e st bc = None \<Longrightarrow> verify_barcode cfg e bc = Inr None \<Longrightarrow>
   verify_access cfg e st bc src =
     (Inr (fallback_result bc),
      log_access_attempt e (st\<lparr>remote_calls := remote_calls st @ [bc]\<rparr>)
        (log_entry_of e bc src (fallback_result bc)))"
  by (simp add: verify_access_def verify_access_try_def log_and_return_def)





subsection \<open>Remote authority unavailable\<close>



subsection \<open>The validity window of a cache row\<close>



subsection \<open>No remote configured\<close>

text \<open>
  Claim C9. When the remote type is not \<^verbatim>\<open>http\<close> or the base URL is empty,
  \<^verbatim>\<open>verify_barcode\<close> returns no result, and every \<^verbatim>\<open>verify_access\<close> that misses
  the cache returns the denial with reason \<^verbatim>\<open>Remote verification unavailable\<close>.
\<close>

theorem unconfigured_remote_denies_uncached:
  assumes "remote_type cfg \<noteq> ''http'' \<or> base_url cfg = []"
      and "get_cached_access e st bc = None"
  shows "verify_barcode cfg e bc = Inr None
         \<and> fst (verify_access cfg e st bc src) =
             Inr \<lparr>granted = PyBool False, barcode = bc, user_id = PyNone, user_name = PyNone,
                   reason = PyStr ''Remote verification unavailable'', expires_at = None,
                   permissions = PyNone, cached = False\<rparr>"
proof -
  from assms(1) have none: "verify_barcode cfg e bc = Inr None"
    by (auto simp: verify_barcode_def)
  with assms(2) show ?thesis
    by (simp add: verify_access_unavailable fallback_result_def)
qed

theorem unconfigured_remote_denies_uncached_witness:
  "base_url cfg_unconfigured = []
   \<and> get_cached_access
        (env_at (Response 200 (Some (PyDict [(''access_granted'', PyBool True)]))) 0)
        st_empty ''123456789'' = None
   \<and> fst (verify_access cfg_unconfigured
            (env_at (Response 200 (Some (PyDict [(''access_granted'', PyBool True)]))) 0)
            st_empty ''123456789'' ''barcode'') =
       Inr \<lparr>granted = PyBool False, barcode = ''123456789'', user_id = PyNone,
            user_name = PyNone, reason = PyStr ''Remote verification unavailable'',
            expires_at = None, permissions = PyNone, cached = False\<rparr>"
proof -
  let ?e = "env_at (Response 200 (Some (PyDict [(''access_granted'', PyBool True)]))) 0"
  have h1: "remote_type cfg_unconfigured \<noteq> ''http'' \<or> base_url cfg_unconfigured = []"
    by (simp add: cfg_unconfigured_def)
  have h2: "get_cached_access ?e st_empty ''123456789'' = None"
    by (simp add: get_cached_access_def env_at_def st_empty_def aiosqlite_run_def)
  have h0: "base_url cfg_unconfigured = []"
    by (simp add: cfg_unconfigured_def)
  show ?thesis
    using unconfigured_remote_denies_uncached [OF h1 h2, of "''barcode''"] h0 h2
    by simp
qed

subsection \<open>A response without the grant flag\<close>

lemma parse_try_no_field:
  assumes "\<forall>kvs. data = PyDict kvs \<longrightarrow> map_of kvs ''access_granted'' = None"
  shows "case parse_try e bc data of Inl ex \<Rightarrow> True | Inr r \<Rightarrow> granted r = PyBool False"
  using assms by (cases data) (simp_all add: dict_get_def Let_def)

lemma verify_barcode_200:
  assumes "remote_type cfg = ''http''" and "base_url cfg \<noteq> []"
      and "get_client e = Inr (Some ())" and "http e = Response 200 (Some data)"
  shows "verify_barcode cfg e bc = Inr (Some (parse_verification_response e bc data))"
  using assms by (simp add: verify_barcode_def)

text \<open>
  Claim C10. A decoded body that has no field \<^verbatim>\<open>access_granted\<close> is parsed to a
  result with \<^verbatim>\<open>granted = False\<close>, and that is the result \<^verbatim>\<open>verify_barcode\<close>
  returns for a response with status 200 and this body: a missing grant flag is never
  read as a grant.
\<close>

theorem missing_access_granted_is_denied:
  assumes "\<forall>kvs. data = PyDict kvs \<longrightarrow> map_of kvs ''access_granted'' = None"
  shows "granted (parse_verification_response e bc data) = PyBool False
         \<and> (remote_type cfg = ''http'' \<and> base_url cfg \<noteq> [] \<and> get_client e = Inr (Some ())
              \<and> http e = Response 200 (Some data) \<longrightarrow>
            (\<exists>r. verify_barcode cfg e bc = Inr (Some r) \<and> granted r = PyBool False))"
proof -
  have g: "granted (parse_verification_response e bc data) = PyBool False"
    using parse_try_no_field [OF assms, of e bc]
    by (simp add: parse_verification_response_def split: sum.splits)
  then show ?thesis
    by (simp add: verify_barcode_200)
qed

theorem missing_access_granted_is_denied_witness:
  "map_of [(''user_id'', PyStr ''user001'')] ''access_granted'' = None
   \<and> remote_type cfg_http = ''http'' \<and> base_url cfg_http \<noteq> []
   \<and> get_client (env_at (Response 200 (Some (PyDict [(''user_id'', PyStr ''user001'')]))) 0) =
       Inr (Some ())
   \<and> http (env_at (Response 200 (Some (PyDict [(''user_id'', PyStr ''user001'')]))) 0) =
       Response 200 (Some (PyDict [(''user_id'', PyStr ''user001'')]))
   \<and> verify_barcode cfg_http
        (env_at (Response 200 (Some (PyDict [(''user_id'', PyStr ''user001'')]))) 0)
        ''123456789'' =
       Inr (Some \<lparr>granted = PyBool False, barcode = ''123456789'',
                  user_id = PyStr ''user001'', user_name = PyNone,
                  reason = PyStr ''Access denied'', expires_at = None,
                  permissions = PyList [], cached = False\<rparr>)"
proof -
  let ?data = "PyDict [(''user_id'', PyStr ''user001'')]"
  let ?e = "env_at (Response 200 (Some ?data)) 0"
  have h: "\<forall>kvs. ?data = PyDict kvs \<longrightarrow> map_of kvs ''access_granted'' = None"
    by simp
  have c: "remote_type cfg_http = ''http'' \<and> base_url cfg_http \<noteq> []
           \<and> get_client ?e = Inr (Some ()) \<and> http ?e = Response 200 (Some ?data)"
    by (simp add: cfg_http_def env_at_def get_client_def)
  have v: "verify_barcode cfg_http ?e ''123456789'' =
       Inr (Some \<lparr>granted = PyBool False, barcode = ''123456789'',
                  user_id = PyStr ''user001'', user_name = PyNone,
                  reason = PyStr ''Access denied'', expires_at = None,
                  permissions = PyList [], cached = False\<rparr>)"
    by (simp add: verify_barcode_def cfg_http_def env_at_def get_client_def
          parse_verification_response_def dict_get_def parse_expires_at_def Let_def)
  show ?thesis
    using missing_access_granted_is_denied [OF h, of ?e "''123456789''" cfg_http] c v
    by simp
qed

subsection \<open>What the result depends on\<close>

lemma parse_try_barcode:
  "parse_try e bc d = Inr r \<Longrightarrow> barcode r = bc"
  by (cases d) (auto simp: Let_def)

lemma parse_verification_response_barcode [simp]:
  "barcode (parse_verification_response e bc d) = bc"
  by (cases "parse_try e bc d")
     (simp_all add: parse_verification_response_def parse_try_barcode)

lemma verify_barcode_barcode:
  "verify_barcode cfg e bc = Inr (Some r) \<Longrightarrow> barcode r = bc"
  by (auto simp: verify_barcode_def
        split: if_splits sum.splits option.splits http_outcome.splits)

lemma get_cached_access_barcode:
  "get_cached_access e st bc = Some r \<Longrightarrow> barcode r = bc"
  by (auto simp: get_cached_access_def find_Some_iff split: option.splits if_splits)

lemma verify_access_cases:
  "fst (verify_access cfg e st bc src) =
     (case get_cached_access e st bc of
        Some r \<Rightarrow> Inr r
      | None \<Rightarrow>
          (case verify_barcode cfg e bc of
             Inl ex \<Rightarrow> Inr (error_result bc)
           | Inr None \<Rightarrow> Inr (fallback_result bc)
           | Inr (Some r) \<Rightarrow> Inr r))"
  by (simp add: verify_access_def verify_access_try_def log_and_return_def Let_def
        split: sum.splits option.splits)

lemma get_cached_access_log_error [simp]:
  "get_cached_access (e\<lparr>log_error := x\<rparr>) st bc = get_cached_access e st bc"
  by (simp add: get_cached_access_def aiosqlite_run_def split: option.splits)

lemma get_cached_access_insert_error [simp]:
  "get_cached_access (e\<lparr>insert_error := x\<rparr>) st bc = get_cached_access e st bc"
  by (simp add: get_cached_access_def aiosqlite_run_def split: option.splits)

lemma parse_expires_at_log_error [simp]:
  "parse_expires_at (e\<lparr>log_error := x\<rparr>) kvs = parse_expires_at e kvs"
  by (simp add: parse_expires_at_def split: option.splits pyval.splits)

lemma parse_expires_at_insert_error [simp]:
  "parse_expires_at (e\<lparr>insert_error := x\<rparr>) kvs = parse_expires_at e kvs"
  by (simp add: parse_expires_at_def split: option.splits pyval.splits)

lemma parse_try_log_error [simp]:
  "parse_try (e\<lparr>log_error := x\<rparr>) bc d = parse_try e bc d"
  by (cases d) simp_all

lemma parse_try_insert_error [simp]:
  "parse_try (e\<lparr>insert_error := x\<rparr>) bc d = parse_try e bc d"
  by (cases d) simp_all

lemma parse_log_error [simp]:
  "parse_verification_response (e\<lparr>log_error := x\<rparr>) bc d = parse_verification_response e bc d"
  by (simp add: parse_verification_response_def)

lemma parse_insert_error [simp]:
  "parse_verification_response (e\<lparr>insert_error := x\<rparr>) bc d = parse_verification_response e bc d"
  by (simp add: parse_verification_response_def)

lemma verify_barcode_log_error [simp]:
  "verify_barcode cfg (e\<lparr>log_error := x\<rparr>) bc = verify_barcode cfg e bc"
  by (simp add: verify_barcode_def get_client_def
        split: sum.splits option.splits http_outcome.splits)

lemma verify_barcode_insert_error [simp]:
  "verify_barcode cfg (e\<lparr>insert_error := x\<rparr>) bc = verify_barcode cfg e bc"
  by (simp add: verify_barcode_def get_client_def
        split: sum.splits option.splits http_outcome.splits)

subsection \<open>\<^verbatim>\<open>verify_access\<close> always returns a result\<close>

text \<open>
  Claim C4. \<^verbatim>\<open>verify_access\<close> never raises: for all surroundings it returns an
  \<^verbatim>\<open>AccessResult\<close> for the identifier asked about. A failing audit write or cache
  write does not change the result that is returned, and a failing audit write leaves
  the log as it was. A failing cache read counts as a miss. When the lookup misses and
  the remote verifier gives no result or raises, the result is a denial with a reason.
\<close>

theorem verify_access_always_returns:
  "(\<exists>r. fst (verify_access cfg e st bc src) = Inr r \<and> barcode r = bc)
   \<and> fst (verify_access cfg (e\<lparr>log_error := le\<rparr>) st bc src) = fst (verify_access cfg e st bc src)
   \<and> fst (verify_access cfg (e\<lparr>insert_error := ie\<rparr>) st bc src) =
       fst (verify_access cfg e st bc src)
   \<and> (aiosqlite_run e (log_error e) \<noteq> None \<longrightarrow>
        access_logs (snd (verify_access cfg e st bc src)) = access_logs st)
   \<and> (aiosqlite_run e (select_error e) \<noteq> None \<longrightarrow> get_cached_access e st bc = None)
   \<and> (get_cached_access e st bc = None \<and> (\<forall>r. verify_barcode cfg e bc \<noteq> Inr (Some r)) \<longrightarrow>
        (\<exists>r. fst (verify_access cfg e st bc src) = Inr r \<and> granted r = PyBool False
              \<and> (reason r = PyStr ''Remote verification unavailable''
                  \<or> reason r = PyStr ''Verification error'')))"
proof -
  have returns: "\<exists>r. fst (verify_access cfg e st bc src) = Inr r \<and> barcode r = bc"
    by (auto simp: verify_access_cases error_result_def fallback_result_def
          split: option.splits sum.splits
          dest: get_cached_access_barcode verify_barcode_barcode)
  have log: "fst (verify_access cfg (e\<lparr>log_error := le\<rparr>) st bc src) =
             fst (verify_access cfg e st bc src)"
    by (simp add: verify_access_cases split: option.splits)
  have ins: "fst (verify_access cfg (e\<lparr>insert_error := ie\<rparr>) st bc src) =
             fst (verify_access cfg e st bc src)"
    by (simp add: verify_access_cases split: option.splits)
  have swallowed: "access_logs (snd (verify_access cfg e st bc src)) = access_logs st"
    if "aiosqlite_run e (log_error e) \<noteq> None"
    using that
    by (auto simp: verify_access_def verify_access_try_def log_and_return_def Let_def
          log_access_attempt_def split: sum.splits option.splits)
  have read: "get_cached_access e st bc = None" if "aiosqlite_run e (select_error e) \<noteq> None"
    using that by (auto simp: get_cached_access_def split: option.splits)
  have deny: "\<exists>r. fst (verify_access cfg e st bc src) = Inr r \<and> granted r = PyBool False
              \<and> (reason r = PyStr ''Remote verification unavailable''
                  \<or> reason r = PyStr ''Verification error'')"
    if "get_cached_access e st bc = None" and "\<forall>r. verify_barcode cfg e bc \<noteq> Inr (Some r)"
    using that
    by (auto simp: verify_access_cases error_result_def fallback_result_def
          split: option.splits sum.splits)
  from returns log ins swallowed read deny show ?thesis
    by blast
qed


theorem verify_access_always_returns_witness:
  "aiosqlite_run
     ((env_at (Raises (Exn ''timed out'')) 0)
        \<lparr>select_error := Some (Exn ''disk I/O error''),
         log_error := Some (Exn ''disk I/O error'')\<rparr>)
     (log_error
        ((env_at (Raises (Exn ''timed out'')) 0)
           \<lparr>select_error := Some (Exn ''disk I/O error''),
            log_error := Some (Exn ''disk I/O error'')\<rparr>)) \<noteq> None
   \<and> aiosqlite_run
     ((env_at (Raises (Exn ''timed out'')) 0)
        \<lparr>select_error := Some (Exn ''disk I/O error''),
         log_error := Some (Exn ''disk I/O error'')\<rparr>)
     (select_error
        ((env_at (Raises (Exn ''timed out'')) 0)
           \<lparr>select_error := Some (Exn ''disk I/O error''),
            log_error := Some (Exn ''disk I/O error'')\<rparr>)) \<noteq> None
   \<and> (\<forall>r. verify_barcode cfg_http
          ((env_at (Raises (Exn ''timed out'')) 0)
             \<lparr>select_error := Some (Exn ''disk I/O error''),
              log_error := Some (Exn ''disk I/O error'')\<rparr>) ''123456789'' \<noteq> Inr (Some r))
   \<and> verify_access cfg_http
        ((env_at (Raises (Exn ''timed out'')) 0)
           \<lparr>select_error := Some (Exn ''disk I/O error''),
            log_error := Some (Exn ''disk I/O error'')\<rparr>)
        (st_empty\<lparr>access_cache := [row_555]\<rparr>) ''123456789'' ''barcode'' =
       (Inr \<lparr>granted = PyBool False, barcode = ''123456789'', user_id = PyNone,
             user_name = PyNone, reason = PyStr ''Remote verification unavailable'',
             expires_at = None, permissions = PyNone, cached = False\<rparr>,
        st_empty\<lparr>access_cache := [row_555], remote_calls := [''123456789'']\<rparr>)"
proof -
  let ?e = "(env_at (Raises (Exn ''timed out'')) 0)
              \<lparr>select_error := Some (Exn ''disk I/O error''),
               log_error := Some (Exn ''disk I/O error'')\<rparr>"
  let ?st = "st_empty\<lparr>access_cache := [row_555]\<rparr>"
  have h1: "aiosqlite_run ?e (log_error ?e) \<noteq> None"
    by (simp add: aiosqlite_run_def env_at_def)
  have h2: "aiosqlite_run ?e (select_error ?e) \<noteq> None"
    by (simp add: aiosqlite_run_def env_at_def)
  have vb: "verify_barcode cfg_http ?e ''123456789'' = Inr None"
    by (simp add: verify_barcode_def cfg_http_def env_at_def get_client_def)
  then have h3: "\<forall>r. verify_barcode cfg_http ?e ''123456789'' \<noteq> Inr (Some r)"
    by simp
  have miss: "get_cached_access ?e ?st ''123456789'' = None"
    using verify_access_always_returns
            [of cfg_http ?e ?st "''123456789''" "''barcode''" None None] h2
    by blast
  have run: "verify_access cfg_http ?e ?st ''123456789'' ''barcode'' =
       (Inr \<lparr>granted = PyBool False, barcode = ''123456789'', user_id = PyNone,
             user_name = PyNone, reason = PyStr ''Remote verification unavailable'',
             expires_at = None, permissions = PyNone, cached = False\<rparr>,
        st_empty\<lparr>access_cache := [row_555], remote_calls := [''123456789'']\<rparr>)"
    using verify_access_unavailable [OF miss vb, of "''barcode''"]
    by (simp add: log_access_attempt_def aiosqlite_run_def env_at_def fallback_result_def
          st_empty_def)
  from h1 h2 h3 run show ?thesis
    by blast
qed

subsection \<open>Reading back what was written to the cache\<close>








lemmas run_defs =
  verify_access_def verify_access_try_def log_and_return_def log_entry_of_def
  get_cached_access_def cache_access_result_def log_access_attempt_def next_id_def
  verify_barcode_def get_client_def parse_verification_response_def dict_get_def
  parse_expires_at_def fallback_result_def error_result_def aiosqlite_run_def py_or_def
  timedelta_hours_def Let_def env_at_def cfg_http_def st_empty_def

subsection \<open>Identifier unknown to the remote authority\<close>




subsection \<open>Two calls within the validity window\<close>




subsection \<open>Responses that give no answer\<close>

lemma verify_barcode_no_answer:
  assumes "http e = Raises ex \<or> http e = Response 200 None
           \<or> (http e = Response status body \<and> status \<noteq> 200 \<and> status \<noteq> 404)"
  shows "verify_barcode cfg e bc = Inr None \<or> (\<exists>ex'. verify_barcode cfg e bc = Inl ex')"
  using assms
  by (auto simp: verify_barcode_def split: sum.splits option.splits)

lemma access_cache_unchanged_without_answer:
  assumes "\<forall>r. verify_barcode cfg e bc \<noteq> Inr (Some r)"
  shows "access_cache (snd (verify_access cfg e st bc src)) = access_cache st"
  using assms
  by (simp add: verify_access_def verify_access_try_def log_and_return_def Let_def
        split: sum.splits option.splits)

lemma parse_not_a_dictionary:
  assumes "\<forall>kvs. data \<noteq> PyDict kvs"
  shows "parse_verification_response e bc data =
           \<lparr>granted = PyBool False, barcode = bc, user_id = PyNone, user_name = PyNone,
            reason = PyStr ''Invalid response format'', expires_at = None,
            permissions = PyNone, cached = False\<rparr>"
  using assms by (cases data) (simp_all add: parse_verification_response_def)

text \<open>
  Claim C6, as the code has it. A request that raises, a response with status 200 whose
  body does not decode, and a response with any status other than 200 and 404 give no
  result: \<^verbatim>\<open>verify_barcode\<close> returns \<^verbatim>\<open>None\<close> (when a client exists), never a grant or
  a denial, and \<^verbatim>\<open>verify_access\<close> leaves the cache as it was. A response with status
  200 whose body decodes to something that is not a dictionary is answered by the handler
  of \<^verbatim>\<open>_parse_verification_response\<close> with the denial
  \<^verbatim>\<open>Invalid response format\<close>, a result like any other.
\<close>

theorem unanswered_request_is_unavailable:
  "(http e = Raises ex \<or> http e = Response 200 None
      \<or> (http e = Response status body \<and> status \<noteq> 200 \<and> status \<noteq> 404) \<longrightarrow>
    (\<forall>r. verify_barcode cfg e bc \<noteq> Inr (Some r))
    \<and> (get_client e = Inr (Some ()) \<longrightarrow> verify_barcode cfg e bc = Inr None)
    \<and> access_cache (snd (verify_access cfg e st bc src)) = access_cache st)
   \<and> (remote_type cfg = ''http'' \<and> base_url cfg \<noteq> [] \<and> get_client e = Inr (Some ())
        \<and> http e = Response 200 (Some data) \<and> (\<forall>kvs. data \<noteq> PyDict kvs) \<longrightarrow>
      verify_barcode cfg e bc =
        Inr (Some \<lparr>granted = PyBool False, barcode = bc, user_id = PyNone, user_name = PyNone,
                   reason = PyStr ''Invalid response format'', expires_at = None,
                   permissions = PyNone, cached = False\<rparr>))"
proof -
  have unavailable:
    "(\<forall>r. verify_barcode cfg e bc \<noteq> Inr (Some r))
     \<and> (get_client e = Inr (Some ()) \<longrightarrow> verify_barcode cfg e bc = Inr None)
     \<and> access_cache (snd (verify_access cfg e st bc src)) = access_cache st"
    if h: "http e = Raises ex \<or> http e = Response 200 None
           \<or> (http e = Response status body \<and> status \<noteq> 200 \<and> status \<noteq> 404)"
  proof -
    from h have none: "verify_barcode cfg e bc = Inr None \<or> (\<exists>ex'. verify_barcode cfg e bc = Inl ex')"
      by (rule verify_barcode_no_answer)
    then have no: "\<forall>r. verify_barcode cfg e bc \<noteq> Inr (Some r)"
      by auto
    have client: "verify_barcode cfg e bc = Inr None" if "get_client e = Inr (Some ())"
      using h that by (auto simp: verify_barcode_def)
    from no client access_cache_unchanged_without_answer [OF no] show ?thesis
      by blast
  qed
  have invalid: "verify_barcode cfg e bc =
        Inr (Some \<lparr>granted = PyBool False, barcode = bc, user_id = PyNone, user_name = PyNone,
                   reason = PyStr ''Invalid response format'', expires_at = None,
                   permissions = PyNone, cached = False\<rparr>)"
    if "remote_type cfg = ''http''" "base_url cfg \<noteq> []" "get_client e = Inr (Some ())"
       "http e = Response 200 (Some data)" "\<forall>kvs. data \<noteq> PyDict kvs"
    using verify_barcode_200 [OF that(1-4), of bc] parse_not_a_dictionary [OF that(5), of e bc]
    by simp
  from unavailable invalid show ?thesis
    by blast
qed

theorem unanswered_request_is_unavailable_witness:
  "http (env_at (Response 500 None) 0) = Response 500 None \<and> (500::int) \<noteq> 200 \<and> (500::int) \<noteq> 404
   \<and> get_client (env_at (Response 500 None) 0) = Inr (Some ())
   \<and> verify_barcode cfg_http (env_at (Response 500 None) 0) ''123456789'' = Inr None
   \<and> access_cache
        (snd (verify_access cfg_http (env_at (Response 500 None) 0) st_empty
               ''123456789'' ''barcode'')) = []
   \<and> remote_type cfg_http = ''http'' \<and> base_url cfg_http \<noteq> []
   \<and> get_client (env_at (Response 200 (Some (PyStr ''ok''))) 0) = Inr (Some ())
   \<and> http (env_at (Response 200 (Some (PyStr ''ok''))) 0) = Response 200 (Some (PyStr ''ok''))
   \<and> (\<forall>kvs. PyStr ''ok'' \<noteq> PyDict kvs)
   \<and> verify_barcode cfg_http (env_at (Response 200 (Some (PyStr ''ok''))) 0) ''123456789'' =
        Inr (Some \<lparr>granted = PyBool False, barcode = ''123456789'', user_id = PyNone,
                   user_name = PyNone, reason = PyStr ''Invalid response format'',
                   expires_at = None, permissions = PyNone, cached = False\<rparr>)"
proof -
  let ?e = "env_at (Response 500 None) 0"
  let ?e' = "env_at (Response 200 (Some (PyStr ''ok''))) 0"
  have a: "http ?e = Response 500 None \<and> (500::int) \<noteq> 200 \<and> (500::int) \<noteq> 404"
    by (simp add: env_at_def)
  have c: "get_client ?e = Inr (Some ())"
    by (simp add: get_client_def env_at_def)
  have b: "remote_type cfg_http = ''http'' \<and> base_url cfg_http \<noteq> []
           \<and> get_client ?e' = Inr (Some ())
           \<and> http ?e' = Response 200 (Some (PyStr ''ok''))
           \<and> (\<forall>kvs. PyStr ''ok'' \<noteq> PyDict kvs)"
    by (simp add: cfg_http_def get_client_def env_at_def)
  have empty: "access_cache st_empty = []"
    by (simp add: st_empty_def)
  from a c have first:
    "verify_barcode cfg_http ?e ''123456789'' = Inr None
     \<and> access_cache (snd (verify_access cfg_http ?e st_empty ''123456789'' ''barcode'')) = []"
    using unanswered_request_is_unavailable
            [of ?e "Exn ''none''" 500 None cfg_http "''123456789''" st_empty "''barcode''"]
    by (simp add: empty)
  from b have second:
    "verify_barcode cfg_http ?e' ''123456789'' =
        Inr (Some \<lparr>granted = PyBool False, barcode = ''123456789'', user_id = PyNone,
                   user_name = PyNone, reason = PyStr ''Invalid response format'',
                   expires_at = None, permissions = PyNone, cached = False\<rparr>)"
    using unanswered_request_is_unavailable
            [of ?e' "Exn ''none''" 200 None cfg_http "''123456789''" st_empty "''barcode''"
                "PyStr ''ok''"]
    by simp
  from a c b first second show ?thesis
    by blast
qed

text \<open>
  Claim C6 as stated fails for a malformed body that is valid JSON: the body \<^verbatim>\<open>[]\<close>
  with status 200 is turned into a denial, and \<^verbatim>\<open>verify_access\<close> writes that denial
  to the cache.
\<close>

theorem malformed_body_unavailable_counterexample:
  "verify_barcode cfg_http (env_at (Response 200 (Some (PyList []))) 0) ''123456789'' =
     Inr (Some \<lparr>granted = PyBool False, barcode = ''123456789'', user_id = PyNone,
                user_name = PyNone, reason = PyStr ''Invalid response format'',
                expires_at = None, permissions = PyNone, cached = False\<rparr>)
   \<and> access_cache
        (snd (verify_access cfg_http (env_at (Response 200 (Some (PyList []))) 0) st_empty
               ''123456789'' ''barcode'')) =
     [\<lparr>c_barcode = ''123456789'', c_user_id = PyNone, c_user_name = PyNone,
       c_granted = PyBool False, c_permissions = Some (PyList []), c_expires_at = None,
       c_cached_at = 0\<rparr>]"
  by (simp add: run_defs)

subsection \<open>The audit trail\<close>





subsection \<open>Eviction\<close>




end
